theory Spec2Isabelle
  imports Main "HOL-Library.Word"
begin

section \<open>The APDL chaincode of \<open>ssdLedger_chaincode/apdlcc.go\<close>\<close>

text \<open>
  The chaincode keeps one agreement record under the key \<open>contract\<close> and one
  decimal balance under each participant's public key, all in the same key space of
  the ledger. Go's \<open>int\<close> is the 64-bit two's complement integer: \<open>+\<close> and
  \<open>-\<close> wrap, and comparisons read the signed value (\<open>sint\<close>).
\<close>

type_synonym go_int = "64 word"

text \<open>A \<open>time.Time\<close> is an instant: nanoseconds since 1970-01-01T00:00:00Z.\<close>

type_synonym Time = int

subsection \<open>Library functions the chaincode calls\<close>

text \<open>
  \<open>strconv.Atoi\<close>: an optional sign, then one or more decimal digits, the value within
  the range of a 64-bit signed integer; anything else is an error (\<open>None\<close>).
\<close>

definition is_digit :: "char \<Rightarrow> bool" where
  "is_digit c = (48 \<le> (of_char c :: nat) \<and> (of_char c :: nat) \<le> 57)"

definition digit_val :: "char \<Rightarrow> int" where
  "digit_val c = of_char c - 48"

fun decimal :: "string \<Rightarrow> int \<Rightarrow> int option" where
  "decimal [] n = Some n"
| "decimal (c # cs) n = (if is_digit c then decimal cs (n * 10 + digit_val c) else None)"

definition Atoi :: "string \<Rightarrow> go_int option" where
  "Atoi s =
     (case s of
        [] \<Rightarrow> None
      | c # cs \<Rightarrow>
          (let ds = (if c = CHR ''-'' \<or> c = CHR ''+'' then cs else s) in
           if ds = [] then None
           else (case decimal ds 0 of
                   None \<Rightarrow> None
                 | Some n \<Rightarrow>
                     (let v = (if c = CHR ''-'' then - n else n) in
                      if - (2 ^ 63) \<le> v \<and> v < 2 ^ 63 then Some (word_of_int v) else None))))"

text \<open>
  \<open>time.Parse("01/02/2006", value)\<close>: two digits of month, a slash, two digits of day,
  a slash, four digits of year and nothing more; the month within 1..12 and the day
  within the month. The result is midnight UTC of that day.
\<close>

definition leap :: "int \<Rightarrow> bool" where
  "leap y = (y mod 4 = 0 \<and> (y mod 100 \<noteq> 0 \<or> y mod 400 = 0))"

definition daysIn :: "int \<Rightarrow> int \<Rightarrow> int" where
  "daysIn m y =
     (if m = 2 then (if leap y then 29 else 28)
      else if m = 4 \<or> m = 6 \<or> m = 9 \<or> m = 11 then 30 else 31)"

text \<open>Days from 1970-01-01 to the given day of the proleptic Gregorian calendar.\<close>

definition days_from_civil :: "int \<Rightarrow> int \<Rightarrow> int \<Rightarrow> int" where
  "days_from_civil y m d =
     (let y' = (if m \<le> 2 then y - 1 else y);
          era = y' div 400;
          yoe = y' mod 400;
          doy = (153 * (if 2 < m then m - 3 else m + 9) + 2) div 5 + d - 1;
          doe = yoe * 365 + yoe div 4 - yoe div 100 + doy
      in era * 146097 + doe - 719468)"

definition Date :: "int \<Rightarrow> int \<Rightarrow> int \<Rightarrow> Time" where
  "Date y m d = days_from_civil y m d * 86400 * 1000000000"

definition num2 :: "char \<Rightarrow> char \<Rightarrow> int" where
  "num2 a b = digit_val a * 10 + digit_val b"

definition Parse :: "string \<Rightarrow> Time option" where
  "Parse v =
     (if length v \<noteq> 10 then None
      else if \<not> (is_digit (v ! 0) \<and> is_digit (v ! 1) \<and> v ! 2 = CHR ''/'' \<and>
                 is_digit (v ! 3) \<and> is_digit (v ! 4) \<and> v ! 5 = CHR ''/'' \<and>
                 is_digit (v ! 6) \<and> is_digit (v ! 7) \<and> is_digit (v ! 8) \<and> is_digit (v ! 9))
      then None
      else (let month = num2 (v ! 0) (v ! 1);
                day = num2 (v ! 3) (v ! 4);
                year = num2 (v ! 6) (v ! 7) * 100 + num2 (v ! 8) (v ! 9)
            in if month < 1 \<or> 12 < month then None
               else if day < 1 \<or> daysIn month year < day then None
               else Some (Date year month day)))"

text \<open>\<open>t.After(u)\<close>: the instant \<open>t\<close> is strictly later than \<open>u\<close>.\<close>

definition After :: "Time \<Rightarrow> Time \<Rightarrow> bool" where
  "After t u = (u < t)"

text \<open>
  \<open>strings.Split(s, ",")\<close>: the pieces of \<open>s\<close> between the commas; a string without
  a comma is its only piece.
\<close>

fun Split :: "string \<Rightarrow> string list" where
  "Split [] = [[]]"
| "Split (x # xs) =
     (if x = CHR '','' then [] # Split xs
      else (case Split xs of
              [] \<Rightarrow> [[x]]
            | w # ws \<Rightarrow> (x # w) # ws))"

subsection \<open>Cryptographic primitives\<close>

text \<open>
  The decoding and signature primitives of Go's library are parameters of the model:
  \<^item> \<open>DecodeString\<close> is \<open>base64.URLEncoding.DecodeString\<close>: the bytes it returns, and
    whether it reports an error;
  \<^item> \<open>ParsePKIXPublicKey\<close> is \<open>x509.ParsePKIXPublicKey\<close>: \<open>None\<close> is its error;
  \<^item> \<open>SetString\<close> is the value of the \<open>big.Int\<close> after \<open>SetString(s, 0)\<close>;
  \<^item> \<open>Verify\<close> is \<open>ecdsa.Verify\<close> on a key, the message bytes and \<open>(r, s)\<close>.
\<close>

datatype PublicKey = ecdsa_PublicKey int int | other_PublicKey

record crypto =
  DecodeString :: "string \<Rightarrow> string \<times> bool"
  ParsePKIXPublicKey :: "string \<Rightarrow> PublicKey option"
  SetString :: "string \<Rightarrow> int"
  Verify :: "int \<times> int \<Rightarrow> string \<Rightarrow> int \<Rightarrow> int \<Rightarrow> bool"

subsection \<open>\<open>verifySig\<close>\<close>

text \<open>
  One pass of the loop body on \<open>(publicKeys[i], signatures[i])\<close>: \<open>None\<close> is an early
  \<open>return false\<close>, \<open>Some v\<close> is the assignment \<open>verified = v\<close>. The error of the
  base64 decoding is overwritten by the next assignment to \<open>err\<close> and never read.
\<close>

definition verify_step :: "crypto \<Rightarrow> string \<Rightarrow> string \<Rightarrow> string \<Rightarrow> bool option" where
  "verify_step c message key signature =
     (let (publicKeyBytes, err) = DecodeString c key in
      case ParsePKIXPublicKey c publicKeyBytes of
        None \<Rightarrow> None
      | Some publicKey \<Rightarrow>
          (let sig = Split signature in
           if length sig < 2 then None
           else (let r = SetString c (sig ! 0);
                     s = SetString c (sig ! 1)
                 in case publicKey of
                      ecdsa_PublicKey x y \<Rightarrow> Some (Verify c (x, y) message r s)
                    | other_PublicKey \<Rightarrow> None)))"

text \<open>
  The loop \<open>for i := 0; i < len(publicKeys); i++\<close>, run on the pairs
  \<open>(publicKeys[i], signatures[i])\<close> of two lists of one length.
\<close>

fun verifySig_loop :: "crypto \<Rightarrow> string \<Rightarrow> (string \<times> string) list \<Rightarrow> bool \<Rightarrow> bool" where
  "verifySig_loop c message [] verified = verified"
| "verifySig_loop c message ((key, signature) # rest) verified =
     (case verify_step c message key signature of
        None \<Rightarrow> False
      | Some v \<Rightarrow> verifySig_loop c message rest v)"

definition verifySig :: "crypto \<Rightarrow> string \<Rightarrow> string list \<Rightarrow> string list \<Rightarrow> bool" where
  "verifySig c message publicKeys signatures =
     (if length publicKeys \<noteq> length signatures then False
      else verifySig_loop c message (zip publicKeys signatures) False)"

subsection \<open>The agreement record and the ledger\<close>

record Party =
  PubKey :: string
  IPAddress :: string
  Port :: string

record APDL =
  Status :: string
  SoftwareOwner :: Party
  SoftwareUser :: Party
  ContractExpiry :: Time
  DepositAmount :: go_int

definition StartAmount :: go_int where
  "StartAmount = 75000"

definition ContractKey :: string where
  "ContractKey = ''contract''"

definition SenderIP :: string where
  "SenderIP = ''0.0.0.0''"

definition SenderPort :: string where
  "SenderPort = ''0''"

text \<open>
  The byte strings the chaincode stores: \<open>Decimal n\<close> is \<open>[]byte(strconv.Itoa(n))\<close> and
  \<open>Json a\<close> is the result of \<open>json.Marshal(a)\<close>. The chaincode writes nothing else.
  A JSON object is no decimal numeral and a decimal numeral is no JSON object, so
  \<open>strconv.Atoi\<close> fails on the first and \<open>json.Unmarshal\<close> into an \<open>APDL\<close> fails on the
  second; both fail on the absent value. \<open>json.Unmarshal\<close> of \<open>json.Marshal(a)\<close> gives
  \<open>a\<close> back when the strings of \<open>a\<close> are valid UTF-8, as the strings of every record
  read from the ledger are (\<open>json.Marshal\<close> replaces bytes that are not); no statement
  below reads a key or an address back from a record it has written.
\<close>

datatype bytes = Decimal go_int | Json APDL

definition Atoi_bytes :: "bytes option \<Rightarrow> go_int option" where
  "Atoi_bytes v = (case v of Some (Decimal n) \<Rightarrow> Some n | _ \<Rightarrow> None)"

text \<open>\<open>json.Unmarshal(v, &apdl)\<close>: on an error the target keeps its value.\<close>

definition Unmarshal :: "bytes option \<Rightarrow> APDL \<Rightarrow> APDL" where
  "Unmarshal v apdl = (case v of Some (Json a) \<Rightarrow> a | _ \<Rightarrow> apdl)"

text \<open>The zero values of \<open>Party\<close>, \<open>time.Time\<close> (0001-01-01T00:00:00Z) and \<open>APDL\<close>.\<close>

definition zero_Party :: Party where
  "zero_Party = \<lparr>PubKey = [], IPAddress = [], Port = []\<rparr>"

definition zero_Time :: Time where
  "zero_Time = Date 1 1 1"

definition zero_APDL :: APDL where
  "zero_APDL = \<lparr>Status = [], SoftwareOwner = zero_Party, SoftwareUser = zero_Party,
                 ContractExpiry = zero_Time, DepositAmount = 0\<rparr>"

text \<open>
  The stub of one transaction: the string arguments of the proposal (the function name
  first) and the ledger's key space. \<open>GetState\<close> returns what is stored under the key
  (nothing for a key never written) and reports no error. \<open>PutState\<close> follows the
  shim: it rejects the empty key with the error \<open>key must not be an empty string\<close> and
  writes nothing then, and stores the value under any other key. Within one call of \<open>Invoke\<close> a key is read after a write
  only in \<open>refund\<close> (the user's balance after the record), and what that read returns
  differs from the committed value only when the user's key is the contract key, where
  both are a JSON record and parse to no balance.
\<close>

record stub =
  StringArgs :: "string list"
  State :: "string \<rightharpoonup> bytes"

datatype error =
    KeyMustNotBeEmpty
  | IncorrectNumberOfArguments
  | InvalidAmount
  | UnableToParse
  | InvalidPastTime
  | FailedToProcess
  | NeedRecipientSig
  | FailedToGetContract
  | InvalidStatusForPenalty string
  | SignatureVerificationFailed
  | StorageError
  | InvalidStatusForRefund string
  | NotYetExpired

datatype payload = Text string | Stored "bytes option"

datatype Response = Error error | Success payload

definition GetStringArgs :: "stub \<Rightarrow> string list" where
  "GetStringArgs stub = StringArgs stub"

definition GetFunctionAndParameters :: "stub \<Rightarrow> string \<times> string list" where
  "GetFunctionAndParameters stub =
     (case GetStringArgs stub of
        [] \<Rightarrow> ([], [])
      | f # params \<Rightarrow> (f, params))"

definition GetState :: "stub \<Rightarrow> string \<Rightarrow> bytes option \<times> error option" where
  "GetState stub key = (State stub key, None)"

definition PutState :: "string \<Rightarrow> bytes \<Rightarrow> stub \<Rightarrow> error option \<times> stub" where
  "PutState key v stub =
     (if key = [] then (Some KeyMustNotBeEmpty, stub)
      else (None, stub\<lparr>State := (State stub)(key \<mapsto> v)\<rparr>))"

subsection \<open>\<open>Init\<close> and \<open>Invoke\<close>\<close>

definition Init :: "Time \<Rightarrow> stub \<Rightarrow> Response \<times> stub" where
  "Init now stub =
     (let apdl = \<lparr>Status = ''init'', SoftwareOwner = zero_Party, SoftwareUser = zero_Party,
                  ContractExpiry = now, DepositAmount = 0\<rparr>;
          (err, stub') = PutState ContractKey (Json apdl) stub
      in if err \<noteq> None then (Error FailedToProcess, stub')
         else (Success (Text (''[+] Init completed'' @ [CHR 0x0A])), stub'))"

text \<open>The branch \<open>fn == "download_request"\<close>; \<open>args\<close> is \<open>stub.GetStringArgs()\<close>.\<close>

definition download_request :: "Time \<Rightarrow> string \<Rightarrow> stub \<Rightarrow> Response \<times> stub" where
  "download_request now fn stub =
     (let args = GetStringArgs stub in
      if length args \<noteq> 7 then (Error IncorrectNumberOfArguments, stub)
      else (case Atoi (args ! 3) of
              None \<Rightarrow> (Error InvalidAmount, stub)
            | Some amount \<Rightarrow>
                if sint amount < 0 then (Error InvalidAmount, stub)
                else (case Parse (args ! 4) of
                        None \<Rightarrow> (Error UnableToParse, stub)
                      | Some dt \<Rightarrow>
                          if \<not> After dt now then (Error InvalidPastTime, stub)
                          else
                            (let senderPublicKey = args ! 1;
                                 recipientPublicKey = args ! 2;
                                 ds = \<lparr>PubKey = senderPublicKey, IPAddress = SenderIP,
                                       Port = SenderPort\<rparr>;
                                 dr = \<lparr>PubKey = recipientPublicKey, IPAddress = args ! 5,
                                       Port = args ! 6\<rparr>;
                                 apdl = \<lparr>Status = ''download_requested'', SoftwareOwner = ds,
                                         SoftwareUser = dr, ContractExpiry = dt,
                                         DepositAmount = amount\<rparr>;
                                 initialAmount = Decimal (StartAmount - amount);
                                 (err1, stub1) = PutState senderPublicKey initialAmount stub;
                                 (err2, stub2) = PutState recipientPublicKey initialAmount stub1;
                                 (err3, stub3) = PutState ContractKey (Json apdl) stub2
                             in if err3 \<noteq> None then (Error FailedToProcess, stub3)
                                else (Success (Text fn), stub3)))))"

text \<open>
  The branch \<open>fn == "penalty"\<close>; \<open>args\<close> is the parameter list of
  \<open>GetFunctionAndParameters\<close>, the function name not included.
\<close>

definition penalty :: "crypto \<Rightarrow> string list \<Rightarrow> stub \<Rightarrow> Response \<times> stub" where
  "penalty c args stub =
     (if length args \<noteq> 4 then (Error NeedRecipientSig, stub)
      else
        (let (contract, err) = GetState stub ContractKey in
         if err \<noteq> None then (Error FailedToGetContract, stub)
         else
           (let apdl = Unmarshal contract zero_APDL in
            if Status apdl = ''init'' \<or> Status apdl = ''penalized''
            then (Error (InvalidStatusForPenalty (Status apdl)), stub)
            else
              (let publicKeys = [PubKey (SoftwareOwner apdl), PubKey (SoftwareUser apdl)];
                   signatures = [args ! 2, args ! 3] in
               if verifySig c (args ! 1) publicKeys signatures \<noteq> True
               then (Error SignatureVerificationFailed, stub)
               else
                 (let (v, err) = GetState stub (PubKey (SoftwareUser apdl));
                      balance = (case Atoi_bytes v of None \<Rightarrow> 0 | Some n \<Rightarrow> n);
                      balance' = balance - DepositAmount apdl;
                      (err1, stub1) =
                        PutState (PubKey (SoftwareUser apdl)) (Decimal balance') stub;
                      apdl' = apdl\<lparr>Status := ''penalized''\<rparr>;
                      (err2, stub2) = PutState ContractKey (Json apdl') stub1
                  in (Success (Text (''[+] Penalty applied'' @ [CHR 0x0A])), stub2))))))"

text \<open>The branch \<open>fn == "refund"\<close>.\<close>

definition refund :: "Time \<Rightarrow> stub \<Rightarrow> Response \<times> stub" where
  "refund now stub =
     (let (contract, err) = GetState stub ContractKey in
      if err \<noteq> None then (Error StorageError, stub)
      else
        (let apdl = Unmarshal contract zero_APDL in
         if Status apdl \<noteq> ''download_request''
         then (Error (InvalidStatusForRefund (Status apdl)), stub)
         else if After now (ContractExpiry apdl) then
           (let apdl' = apdl\<lparr>Status := ''expired''\<rparr>;
                (err1, stub1) = PutState ContractKey (Json apdl') stub;
                (v, err2) = GetState stub1 (PubKey (SoftwareUser apdl'));
                balance = (case Atoi_bytes v of None \<Rightarrow> 0 | Some n \<Rightarrow> n);
                balance' = balance + DepositAmount apdl';
                (err3, stub2) =
                  PutState (PubKey (SoftwareUser apdl')) (Decimal balance') stub1
            in (Success (Text ''[+] APDL contract expired.''), stub2))
         else (Error NotYetExpired, stub)))"

text \<open>The branch \<open>fn == "get_status"\<close>.\<close>

definition get_status :: "stub \<Rightarrow> Response \<times> stub" where
  "get_status stub =
     (let (contract, err) = GetState stub ContractKey in
      if err \<noteq> None then (Error StorageError, stub)
      else (Success (Stored contract), stub))"

text \<open>
  \<open>Invoke\<close>. The outer \<open>err\<close> is never assigned (every branch declares its own), so the
  test of it after the branches is never taken and the result is the success payload
  \<open>result\<close>, which starts as \<open>fn\<close>.
\<close>

definition Invoke :: "crypto \<Rightarrow> Time \<Rightarrow> stub \<Rightarrow> Response \<times> stub" where
  "Invoke c now stub =
     (let (fn, args) = GetFunctionAndParameters stub in
      if fn = ''download_request'' then download_request now fn stub
      else if fn = ''penalty'' then penalty c args stub
      else if fn = ''refund'' then refund now stub
      else if fn = ''get_status'' then get_status stub
      else (Success (Text fn), stub))"

subsection \<open>Auxiliary definitions for the statements\<close>

text \<open>
  The balance the chaincode reads under a key (\<open>balance, _ := strconv.Atoi(string(value))\<close>):
  the stored decimal, and 0 when the key is absent or holds no decimal.
\<close>

definition balance_at :: "(string \<rightharpoonup> bytes) \<Rightarrow> string \<Rightarrow> go_int" where
  "balance_at st key = (case Atoi_bytes (st key) of None \<Rightarrow> 0 | Some n \<Rightarrow> n)"

text \<open>
  A small instance of the primitives, for evaluating the model on concrete inputs.
  Decoding stops at the first \<open>!\<close>, a character outside the base64 alphabet, reports
  the error and returns the bytes decoded before it, as Go's decoder does. Three byte
  strings parse as keys, two of them elliptic-curve keys. A signature \<open>(r, s)\<close> on a
  message verifies under the key \<open>(x, y)\<close> when \<open>r = x\<close> and \<open>s\<close> is the length of the
  message.
\<close>

definition test_crypto :: crypto where
  "test_crypto =
     \<lparr>DecodeString = (\<lambda>s. (takeWhile (\<lambda>ch. ch \<noteq> CHR ''!'') s, CHR ''!'' \<in> set s)),
      ParsePKIXPublicKey =
        (\<lambda>b. if b = ''EC1'' then Some (ecdsa_PublicKey 1 1)
             else if b = ''EC2'' then Some (ecdsa_PublicKey 2 2)
             else if b = ''RSA'' then Some other_PublicKey
             else None),
      SetString = (\<lambda>s. case decimal s 0 of None \<Rightarrow> 0 | Some n \<Rightarrow> n),
      Verify = (\<lambda>k m r s. r = fst k \<and> s = int (length m))\<rparr>"

text \<open>
  The three checks of \<open>download_request\<close> on the parameters after the function name:
  six of them, the third an integer that is not negative, the fourth a date after now.
\<close>

definition valid_request :: "Time \<Rightarrow> string list \<Rightarrow> bool" where
  "valid_request now params =
     (length params = 6 \<and>
      (case Atoi (params ! 2) of None \<Rightarrow> False | Some n \<Rightarrow> 0 \<le> sint n) \<and>
      (case Parse (params ! 3) of None \<Rightarrow> False | Some dt \<Rightarrow> now < dt))"

text \<open>
  Records and ledgers for evaluating \<open>penalty\<close> and \<open>refund\<close>: an agreement between the
  keys \<open>EC1\<close> (owner) and \<open>EC2\<close> (user) with a deposit of 500, and a ledger that holds
  it with a balance of 74500 for the owner and of 100 for the user.
\<close>

definition example_record :: APDL where
  "example_record =
     \<lparr>Status = ''download_requested'',
      SoftwareOwner = \<lparr>PubKey = ''EC1'', IPAddress = ''0.0.0.0'', Port = ''0''\<rparr>,
      SoftwareUser = \<lparr>PubKey = ''EC2'', IPAddress = ''1.2.3.4'', Port = ''9000''\<rparr>,
      ContractExpiry = 946684800000000000, DepositAmount = 500\<rparr>"

definition example_ledger :: "APDL \<Rightarrow> string \<rightharpoonup> bytes" where
  "example_ledger a = [''EC1'' \<mapsto> Decimal 74500, ''EC2'' \<mapsto> Decimal 100, ''contract'' \<mapsto> Json a]"

section \<open>Properties\<close>

subsection \<open>The instance of the primitives\<close>

lemma tc_simps:
  "DecodeString test_crypto = (\<lambda>s. (takeWhile (\<lambda>ch. ch \<noteq> CHR ''!'') s, CHR ''!'' \<in> set s))"
  "ParsePKIXPublicKey test_crypto =
        (\<lambda>b. if b = ''EC1'' then Some (ecdsa_PublicKey 1 1)
             else if b = ''EC2'' then Some (ecdsa_PublicKey 2 2)
             else if b = ''RSA'' then Some other_PublicKey
             else None)"
  "SetString test_crypto = (\<lambda>s. case decimal s 0 of None \<Rightarrow> 0 | Some n \<Rightarrow> n)"
  "Verify test_crypto = (\<lambda>k m r s. r = fst k \<and> s = int (length m))"
  by (simp_all add: test_crypto_def)

subsection \<open>The verification loop\<close>

lemma verify_step_ecdsa:
  assumes "ParsePKIXPublicKey c (fst (DecodeString c k)) = Some (ecdsa_PublicKey x y)"
    and "2 \<le> length (Split sg)"
  shows "verify_step c m k sg =
    Some (Verify c (x, y) m (SetString c (Split sg ! 0)) (SetString c (Split sg ! 1)))"
  using assms by (simp add: verify_step_def split_beta Let_def)

text \<open>
  When no pass returns early, the loop's result is what the last pass assigned: the
  value of \<open>verified\<close> before a pass is overwritten by it.
\<close>

lemma verifySig_loop_last:
  "ps \<noteq> [] \<Longrightarrow> \<forall>p\<in>set ps. verify_step c m (fst p) (snd p) \<noteq> None \<Longrightarrow>
   verify_step c m (fst (last ps)) (snd (last ps)) = Some (verifySig_loop c m ps v)"
proof (induction ps arbitrary: v)
  case Nil
  then show ?case by simp
next
  case (Cons p ps)
  obtain k sg where p: "p = (k, sg)" by (cases p)
  from Cons.prems obtain w where w: "verify_step c m k sg = Some w" using p by auto
  show ?case
  proof (cases "ps = []")
    case True
    then show ?thesis using p w by simp
  next
    case False
    then show ?thesis using Cons p w by simp
  qed
qed

text \<open>
  C1. When the key list and the signature list have one length (and a last pair), every
  key decodes to an elliptic-curve public key and every signature splits into at least
  two components, \<open>verifySig\<close> returns what \<open>ecdsa.Verify\<close> says of the last key and the
  last signature: the outcomes of the earlier pairs do not enter the result.
\<close>

theorem verifySig_last:
  assumes "length publicKeys = length signatures" and "publicKeys \<noteq> []"
    and "\<forall>k\<in>set publicKeys. \<exists>x y.
           ParsePKIXPublicKey c (fst (DecodeString c k)) = Some (ecdsa_PublicKey x y)"
    and "\<forall>s\<in>set signatures. 2 \<le> length (Split s)"
  shows "\<exists>x y. ParsePKIXPublicKey c (fst (DecodeString c (last publicKeys))) =
                 Some (ecdsa_PublicKey x y) \<and>
               verifySig c message publicKeys signatures =
                 Verify c (x, y) message (SetString c (Split (last signatures) ! 0))
                   (SetString c (Split (last signatures) ! 1))"
proof -
  let ?ps = "zip publicKeys signatures"
  have ne: "?ps \<noteq> []" using assms(1,2) by (cases publicKeys; cases signatures) auto
  have all: "\<forall>p\<in>set ?ps. verify_step c message (fst p) (snd p) \<noteq> None"
  proof
    fix p assume pin: "p \<in> set ?ps"
    obtain k sg where p: "p = (k, sg)" by (cases p)
    from pin p have k: "k \<in> set publicKeys" by (auto dest: set_zip_leftD)
    from pin p have s: "sg \<in> set signatures" by (auto dest: set_zip_rightD)
    from assms(3) k obtain x y where
      "ParsePKIXPublicKey c (fst (DecodeString c k)) = Some (ecdsa_PublicKey x y)" by blast
    moreover from assms(4) s have "2 \<le> length (Split sg)" by blast
    ultimately show "verify_step c message (fst p) (snd p) \<noteq> None"
      using p by (simp add: verify_step_ecdsa)
  qed
  have lst: "last ?ps = (last publicKeys, last signatures)"
    using assms(1,2) by (intro last_zip) auto
  have "last publicKeys \<in> set publicKeys" using assms(2) by simp
  with assms(3) obtain x y where
    xy: "ParsePKIXPublicKey c (fst (DecodeString c (last publicKeys))) = Some (ecdsa_PublicKey x y)"
    by blast
  have "signatures \<noteq> []" using assms(1,2) by auto
  then have "last signatures \<in> set signatures" by simp
  with assms(4) have sg: "2 \<le> length (Split (last signatures))" by blast
  have "verifySig c message publicKeys signatures = verifySig_loop c message ?ps False"
    by (simp add: verifySig_def assms(1))
  with verifySig_loop_last [OF ne all, of False] lst
  have "verify_step c message (last publicKeys) (last signatures) =
        Some (verifySig c message publicKeys signatures)"
    by simp
  with verify_step_ecdsa [OF xy sg, of message] xy show ?thesis by simp
qed

text \<open>
  An input of the kind the claim names: the first (owner) signature does not verify,
  the last (user) signature does, and \<open>verifySig\<close> returns true.
\<close>

theorem verifySig_last_witness:
  "verify_step test_crypto ''m'' ''EC1'' ''5,5'' = Some False \<and>
   verify_step test_crypto ''m'' ''EC2'' ''2,1'' = Some True \<and>
   verifySig test_crypto ''m'' [''EC1'', ''EC2''] [''5,5'', ''2,1''] = True"
proof -
  have "\<exists>x y. ParsePKIXPublicKey test_crypto
                 (fst (DecodeString test_crypto (last [''EC1'', ''EC2'']))) =
                 Some (ecdsa_PublicKey x y) \<and>
               verifySig test_crypto ''m'' [''EC1'', ''EC2''] [''5,5'', ''2,1''] =
                 Verify test_crypto (x, y) ''m''
                   (SetString test_crypto (Split (last [''5,5'', ''2,1'']) ! 0))
                   (SetString test_crypto (Split (last [''5,5'', ''2,1'']) ! 1))"
    by (rule verifySig_last) (simp_all add: tc_simps)
  then have "verifySig test_crypto ''m'' [''EC1'', ''EC2''] [''5,5'', ''2,1''] = True"
    by (simp add: tc_simps is_digit_def digit_val_def)
  moreover have "verify_step test_crypto ''m'' ''EC1'' ''5,5'' = Some False"
    by (simp add: verify_step_def tc_simps is_digit_def digit_val_def)
  moreover have "verify_step test_crypto ''m'' ''EC2'' ''2,1'' = Some True"
    by (simp add: verify_step_def tc_simps is_digit_def digit_val_def)
  ultimately show ?thesis by simp
qed

lemma GetFunctionAndParameters_Cons:
  "StringArgs stub = f # ps \<Longrightarrow> GetFunctionAndParameters stub = (f, ps)"
  by (simp add: GetFunctionAndParameters_def GetStringArgs_def)

lemma Invoke_download_request:
  "StringArgs stub = ''download_request'' # ps \<Longrightarrow>
   Invoke c now stub = download_request now ''download_request'' stub"
  by (simp add: Invoke_def GetFunctionAndParameters_Cons)

lemma Invoke_penalty:
  "StringArgs stub = ''penalty'' # ps \<Longrightarrow> Invoke c now stub = penalty c ps stub"
  by (simp add: Invoke_def GetFunctionAndParameters_Cons)

lemma Invoke_refund:
  "StringArgs stub = ''refund'' # ps \<Longrightarrow> Invoke c now stub = refund now stub"
  by (simp add: Invoke_def GetFunctionAndParameters_Cons)

subsection \<open>Evaluation of the library functions on the inputs used below\<close>

lemma Atoi_1000: "Atoi ''1000'' = Some 1000"
  by (simp add: Atoi_def is_digit_def digit_val_def)

lemma Parse_2999: "Parse ''01/01/2999'' = Some 32472144000000000000"
  by (simp add: Parse_def is_digit_def digit_val_def num2_def daysIn_def leap_def Date_def
      days_from_civil_def Let_def)

lemma Parse_2000: "Parse ''01/01/2000'' = Some 946684800000000000"
  by (simp add: Parse_def is_digit_def digit_val_def num2_def daysIn_def leap_def Date_def
      days_from_civil_def Let_def)

lemma sint_start_minus:
  fixes n :: go_int
  assumes "0 \<le> sint n"
  shows "sint (StartAmount - n) = 75000 - sint n"
proof -
  have "sint n < 2 ^ 63" using sint_lt [of n] by simp
  moreover have "sint (75000 :: 64 word) = 75000" by simp
  ultimately show ?thesis using assms
    by (simp add: StartAmount_def sint_word_ariths signed_take_bit_int_eq_self)
qed

subsection \<open>Dispatch\<close>

text \<open>
  C10. When the function name is none of the names \<open>Invoke\<close> dispatches on
  (\<open>download_request\<close>, \<open>penalty\<close>, \<open>refund\<close>, \<open>get_status\<close>; \<open>Init\<close> is an entry point of
  its own), \<open>Invoke\<close> returns a success response whose payload is the function name,
  and the stub is unchanged.
\<close>

theorem Invoke_unknown:
  assumes "GetFunctionAndParameters stub = (fn, args)"
    and "fn \<notin> {''download_request'', ''penalty'', ''refund'', ''get_status''}"
  shows "Invoke c now stub = (Success (Text fn), stub)"
  using assms by (simp add: Invoke_def)

theorem Invoke_unknown_witness:
  "Invoke test_crypto 0 \<lparr>StringArgs = [''initialize''], State = Map.empty\<rparr> =
     (Success (Text ''initialize''), \<lparr>StringArgs = [''initialize''], State = Map.empty\<rparr>)"
  using Invoke_unknown [of "\<lparr>StringArgs = [''initialize''], State = Map.empty\<rparr>"
      "''initialize''" "[]" test_crypto 0]
  by (simp add: GetFunctionAndParameters_def GetStringArgs_def)

subsection \<open>\<open>download_request\<close>\<close>

text \<open>
  C7. A \<open>download_request\<close> call that fails one of the three checks (the number of
  arguments, the amount, the expiry date) returns the error of the first check it fails,
  and the stub it returns is the stub it was given: nothing is written.
\<close>

theorem download_request_invalid:
  assumes "StringArgs stub = ''download_request'' # params"
    and "\<not> valid_request now params"
  shows "Invoke c now stub =
     (Error (if length params \<noteq> 6 then IncorrectNumberOfArguments
             else if (case Atoi (params ! 2) of None \<Rightarrow> True | Some n \<Rightarrow> sint n < 0)
               then InvalidAmount
             else if Parse (params ! 3) = None then UnableToParse
             else InvalidPastTime), stub)"
  using assms
  by (auto simp add: Invoke_download_request download_request_def GetStringArgs_def
      valid_request_def After_def split: option.splits)

theorem download_request_invalid_witness:
  "\<not> valid_request 1700000000000000000
       [''ownerK'', ''userK'', ''1000'', ''01/01/2000'', ''1.2.3.4'', ''9000''] \<and>
   Invoke test_crypto 1700000000000000000
     \<lparr>StringArgs = [''download_request'', ''ownerK'', ''userK'', ''1000'', ''01/01/2000'',
                    ''1.2.3.4'', ''9000''],
      State = Map.empty\<rparr> =
   (Error InvalidPastTime,
    \<lparr>StringArgs = [''download_request'', ''ownerK'', ''userK'', ''1000'', ''01/01/2000'',
                   ''1.2.3.4'', ''9000''],
     State = Map.empty\<rparr>)"
proof -
  have nv: "\<not> valid_request 1700000000000000000
       [''ownerK'', ''userK'', ''1000'', ''01/01/2000'', ''1.2.3.4'', ''9000'']"
    by (simp add: valid_request_def Atoi_1000 Parse_2000)
  show ?thesis
    using nv download_request_invalid [of
        "\<lparr>StringArgs = [''download_request'', ''ownerK'', ''userK'', ''1000'', ''01/01/2000'',
                    ''1.2.3.4'', ''9000''], State = Map.empty\<rparr>"
        "[''ownerK'', ''userK'', ''1000'', ''01/01/2000'', ''1.2.3.4'', ''9000'']"
        1700000000000000000 test_crypto]
    by (simp add: Atoi_1000 Parse_2000)
qed

lemma PutState_ContractKey:
  "PutState ContractKey v stub = (None, stub\<lparr>State := (State stub)(ContractKey \<mapsto> v)\<rparr>)"
  by (simp add: PutState_def ContractKey_def)

text \<open>
  C4, as the code has it. A well-formed \<open>download_request\<close> succeeds; it writes the
  balance \<open>StartAmount - amount\<close> under the owner's key, the same balance under the
  user's key and then the record under \<open>ContractKey\<close>, in this order and in one key
  space, and it reads the error of the last write only. So the record is stored as the
  claim says, each party's stored balance is \<open>StartAmount - amount\<close> when that party's
  key is neither empty nor \<open>ContractKey\<close>, and no other key changes; the subtraction
  does not wrap.
\<close>

theorem download_request_valid:
  assumes "StringArgs stub = [''download_request'', owner, user, amt, date, ip, port]"
    and "Atoi amt = Some n" and "0 \<le> sint n"
    and "Parse date = Some dt" and "now < dt"
  shows "\<exists>stub'. Invoke c now stub = (Success (Text ''download_request''), stub') \<and>
     State stub' ContractKey = Some (Json
           \<lparr>Status = ''download_requested'',
            SoftwareOwner = \<lparr>PubKey = owner, IPAddress = ''0.0.0.0'', Port = ''0''\<rparr>,
            SoftwareUser = \<lparr>PubKey = user, IPAddress = ip, Port = port\<rparr>,
            ContractExpiry = dt, DepositAmount = n\<rparr>) \<and>
     (owner \<noteq> [] \<and> owner \<noteq> ContractKey \<longrightarrow>
        State stub' owner = Some (Decimal (StartAmount - n))) \<and>
     (user \<noteq> [] \<and> user \<noteq> ContractKey \<longrightarrow>
        State stub' user = Some (Decimal (StartAmount - n))) \<and>
     (\<forall>k. k \<noteq> owner \<and> k \<noteq> user \<and> k \<noteq> ContractKey \<longrightarrow> State stub' k = State stub k) \<and>
     sint (StartAmount - n) = 75000 - sint n"
  using assms
  by (simp add: Invoke_download_request download_request_def GetStringArgs_def After_def
      PutState_def SenderIP_def SenderPort_def sint_start_minus Let_def ContractKey_def)

theorem download_request_valid_witness:
  "fst (Invoke test_crypto 1700000000000000000
     \<lparr>StringArgs = [''download_request'', ''ownerK'', ''userK'', ''1000'', ''01/01/2999'',
                    ''1.2.3.4'', ''9000''],
      State = Map.empty\<rparr>) = Success (Text ''download_request'') \<and>
   State (snd (Invoke test_crypto 1700000000000000000
     \<lparr>StringArgs = [''download_request'', ''ownerK'', ''userK'', ''1000'', ''01/01/2999'',
                    ''1.2.3.4'', ''9000''],
      State = Map.empty\<rparr>)) ''contract'' =
     Some (Json
           \<lparr>Status = ''download_requested'',
            SoftwareOwner = \<lparr>PubKey = ''ownerK'', IPAddress = ''0.0.0.0'', Port = ''0''\<rparr>,
            SoftwareUser = \<lparr>PubKey = ''userK'', IPAddress = ''1.2.3.4'', Port = ''9000''\<rparr>,
            ContractExpiry = 32472144000000000000, DepositAmount = 1000\<rparr>) \<and>
   State (snd (Invoke test_crypto 1700000000000000000
     \<lparr>StringArgs = [''download_request'', ''ownerK'', ''userK'', ''1000'', ''01/01/2999'',
                    ''1.2.3.4'', ''9000''],
      State = Map.empty\<rparr>)) ''ownerK'' = Some (Decimal 74000) \<and>
   State (snd (Invoke test_crypto 1700000000000000000
     \<lparr>StringArgs = [''download_request'', ''ownerK'', ''userK'', ''1000'', ''01/01/2999'',
                    ''1.2.3.4'', ''9000''],
      State = Map.empty\<rparr>)) ''userK'' = Some (Decimal 74000)"
proof -
  let ?stub = "\<lparr>StringArgs = [''download_request'', ''ownerK'', ''userK'', ''1000'',
                    ''01/01/2999'', ''1.2.3.4'', ''9000''],
      State = Map.empty\<rparr>"
  have "0 \<le> sint (1000 :: go_int)" by simp
  from download_request_valid [of ?stub "''ownerK''" "''userK''" "''1000''" "''01/01/2999''"
      "''1.2.3.4''" "''9000''" 1000 32472144000000000000 1700000000000000000 test_crypto,
      OF _ Atoi_1000 this Parse_2999]
  obtain stub' where
    "Invoke test_crypto 1700000000000000000 ?stub = (Success (Text ''download_request''), stub')"
    "State stub' ContractKey = Some (Json
           \<lparr>Status = ''download_requested'',
            SoftwareOwner = \<lparr>PubKey = ''ownerK'', IPAddress = ''0.0.0.0'', Port = ''0''\<rparr>,
            SoftwareUser = \<lparr>PubKey = ''userK'', IPAddress = ''1.2.3.4'', Port = ''9000''\<rparr>,
            ContractExpiry = 32472144000000000000, DepositAmount = 1000\<rparr>)"
    "State stub' ''ownerK'' = Some (Decimal (StartAmount - 1000))"
    "State stub' ''userK'' = Some (Decimal (StartAmount - 1000))"
    by (auto simp add: ContractKey_def)
  then show ?thesis by (simp add: StartAmount_def ContractKey_def)
qed

text \<open>
  The claim as it is stated fails when a party's key is the contract key: the call
  below is well-formed and succeeds, and what is stored under the owner's key is the
  record, so the balance the chaincode reads there is 0 and not 74000.
\<close>

theorem download_request_valid_counterexample:
  "valid_request 1700000000000000000
     [''contract'', ''userK'', ''1000'', ''01/01/2999'', ''1.2.3.4'', ''9000''] \<and>
   fst (Invoke test_crypto 1700000000000000000
     \<lparr>StringArgs = [''download_request'', ''contract'', ''userK'', ''1000'', ''01/01/2999'',
                    ''1.2.3.4'', ''9000''],
      State = Map.empty\<rparr>) = Success (Text ''download_request'') \<and>
   State (snd (Invoke test_crypto 1700000000000000000
     \<lparr>StringArgs = [''download_request'', ''contract'', ''userK'', ''1000'', ''01/01/2999'',
                    ''1.2.3.4'', ''9000''],
      State = Map.empty\<rparr>)) ''contract'' \<noteq> Some (Decimal (StartAmount - 1000)) \<and>
   balance_at (State (snd (Invoke test_crypto 1700000000000000000
     \<lparr>StringArgs = [''download_request'', ''contract'', ''userK'', ''1000'', ''01/01/2999'',
                    ''1.2.3.4'', ''9000''],
      State = Map.empty\<rparr>))) ''contract'' = 0 \<and>
   StartAmount - 1000 = (74000 :: go_int)"
  by (simp add: valid_request_def Atoi_1000 Parse_2999 Invoke_download_request
      download_request_def GetStringArgs_def After_def PutState_def ContractKey_def
      balance_at_def Atoi_bytes_def StartAmount_def Let_def)

subsection \<open>\<open>refund\<close> after \<open>download_request\<close>\<close>

lemma download_request_Success:
  assumes "download_request now fn stub = (Success p, stub')"
  shows "\<exists>a. State stub' ContractKey = Some (Json a) \<and> Status a = ''download_requested''"
  using assms
  by (auto simp add: download_request_def PutState_ContractKey Let_def split_beta
      split: if_splits option.splits)

text \<open>
  C2. \<open>download_request\<close> stores the status \<open>download_requested\<close> and \<open>refund\<close> accepts
  only the status \<open>download_request\<close>. So on the ledger a successful
  \<open>download_request\<close> leaves, a \<open>refund\<close> call (with any arguments, at any time) returns
  the invalid-status error, and the stub it returns is the stub it was given.
\<close>

theorem refund_after_request:
  assumes "StringArgs stub = ''download_request'' # params"
    and "Invoke c now stub = (Success p, stub')"
  shows "Invoke c' now' (stub'\<lparr>StringArgs := ''refund'' # ps\<rparr>) =
     (Error (InvalidStatusForRefund ''download_requested''),
      stub'\<lparr>StringArgs := ''refund'' # ps\<rparr>)"
proof -
  from assms have "download_request now ''download_request'' stub = (Success p, stub')"
    by (simp add: Invoke_download_request)
  then obtain a where a: "State stub' ContractKey = Some (Json a)"
      "Status a = ''download_requested''"
    using download_request_Success by blast
  have "Invoke c' now' (stub'\<lparr>StringArgs := ''refund'' # ps\<rparr>) =
        refund now' (stub'\<lparr>StringArgs := ''refund'' # ps\<rparr>)"
    by (rule Invoke_refund) simp
  also have "\<dots> = (Error (InvalidStatusForRefund ''download_requested''),
      stub'\<lparr>StringArgs := ''refund'' # ps\<rparr>)"
    using a by (simp add: refund_def GetState_def Unmarshal_def)
  finally show ?thesis .
qed

theorem refund_after_request_witness:
  "fst (Invoke test_crypto 1700000000000000000
     \<lparr>StringArgs = [''download_request'', ''ownerK'', ''userK'', ''1000'', ''01/01/2999'',
                    ''1.2.3.4'', ''9000''],
      State = Map.empty\<rparr>) = Success (Text ''download_request'') \<and>
   Invoke test_crypto 40000000000000000000
     ((snd (Invoke test_crypto 1700000000000000000
        \<lparr>StringArgs = [''download_request'', ''ownerK'', ''userK'', ''1000'', ''01/01/2999'',
                       ''1.2.3.4'', ''9000''],
         State = Map.empty\<rparr>))\<lparr>StringArgs := [''refund'']\<rparr>) =
     (Error (InvalidStatusForRefund ''download_requested''),
      (snd (Invoke test_crypto 1700000000000000000
        \<lparr>StringArgs = [''download_request'', ''ownerK'', ''userK'', ''1000'', ''01/01/2999'',
                       ''1.2.3.4'', ''9000''],
         State = Map.empty\<rparr>))\<lparr>StringArgs := [''refund'']\<rparr>)"
proof -
  let ?stub = "\<lparr>StringArgs = [''download_request'', ''ownerK'', ''userK'', ''1000'',
                    ''01/01/2999'', ''1.2.3.4'', ''9000''],
      State = Map.empty\<rparr>"
  let ?r = "Invoke test_crypto 1700000000000000000 ?stub"
  have ok: "fst ?r = Success (Text ''download_request'')"
    by (simp add: Atoi_1000 Parse_2999 Invoke_download_request
      download_request_def GetStringArgs_def After_def PutState_def Let_def ContractKey_def)
  then have "?r = (Success (Text ''download_request''), snd ?r)"
    by (metis prod.collapse)
  from refund_after_request [of ?stub _ test_crypto 1700000000000000000 _ "snd ?r"
      test_crypto 40000000000000000000 "[]", OF _ this] ok
  show ?thesis by simp
qed

subsection \<open>\<open>penalty\<close>\<close>

lemma verifySig_two:
  "verifySig c m [k1, k2] [s1, s2] =
     (verify_step c m k1 s1 \<noteq> None \<and> verify_step c m k2 s2 = Some True)"
  by (auto simp add: verifySig_def split: option.splits)

lemma verify_step_parses:
  "verify_step c m k sg \<noteq> None \<Longrightarrow> ParsePKIXPublicKey c (fst (DecodeString c k)) \<noteq> None"
  by (auto simp add: verify_step_def split_beta split: option.splits)

text \<open>The keys of a pair of signatures that verifies both parse as public keys.\<close>

lemma verifySig_two_parses:
  assumes "verifySig c m [k1, k2] [s1, s2]"
  shows "ParsePKIXPublicKey c (fst (DecodeString c k1)) \<noteq> None"
    and "ParsePKIXPublicKey c (fst (DecodeString c k2)) \<noteq> None"
proof -
  from assms have 1: "verify_step c m k1 s1 \<noteq> None" and 2: "verify_step c m k2 s2 \<noteq> None"
    by (simp_all add: verifySig_two)
  from 1 show "ParsePKIXPublicKey c (fst (DecodeString c k1)) \<noteq> None"
    by (rule verify_step_parses)
  from 2 show "ParsePKIXPublicKey c (fst (DecodeString c k2)) \<noteq> None"
    by (rule verify_step_parses)
qed

lemma verify_step_test_EC1: "verify_step test_crypto ''m'' ''EC1'' ''1,1'' = Some True"
  by (simp add: verify_step_def tc_simps is_digit_def digit_val_def)

lemma verify_step_test_EC2: "verify_step test_crypto ''m'' ''EC2'' ''2,1'' = Some True"
  by (simp add: verify_step_def tc_simps is_digit_def digit_val_def)

lemma verify_step_test_bad: "verify_step test_crypto ''m'' ''EC1'' ''5,5'' = Some False"
  by (simp add: verify_step_def tc_simps is_digit_def digit_val_def)

text \<open>
  C6. With a record stored under the contract key and a \<open>penalty\<close> call of four
  parameters: when the status is \<open>init\<close> or \<open>penalized\<close> the call returns the
  invalid-status error and the stub unchanged, whatever the message and the signatures
  are; any other status passes the test, and the response is then decided by
  \<open>verifySig\<close> alone.
\<close>

theorem penalty_status_gate:
  assumes "StringArgs stub = [''penalty'', a0, message, hubSig, userSig]"
    and "State stub ContractKey = Some (Json apdl)"
  shows "(Status apdl = ''init'' \<or> Status apdl = ''penalized'' \<longrightarrow>
           Invoke c now stub = (Error (InvalidStatusForPenalty (Status apdl)), stub)) \<and>
         (Status apdl \<noteq> ''init'' \<and> Status apdl \<noteq> ''penalized'' \<longrightarrow>
           fst (Invoke c now stub) =
             (if verifySig c message
                   [PubKey (SoftwareOwner apdl), PubKey (SoftwareUser apdl)] [hubSig, userSig]
              then Success (Text (''[+] Penalty applied'' @ [CHR 0x0A]))
              else Error SignatureVerificationFailed))"
  using assms
  by (simp add: Invoke_penalty penalty_def GetState_def Unmarshal_def Let_def split_beta)

text \<open>
  On a penalized record a call with signatures that verify is refused, and on the
  requested record a call with an owner signature that does not verify passes the test
  of the status.
\<close>

theorem penalty_status_gate_witness:
  "verifySig test_crypto ''m'' [''EC1'', ''EC2''] [''1,1'', ''2,1''] \<and>
   Invoke test_crypto 0
     \<lparr>StringArgs = [''penalty'', ''x'', ''m'', ''1,1'', ''2,1''],
      State = example_ledger (example_record\<lparr>Status := ''penalized''\<rparr>)\<rparr> =
   (Error (InvalidStatusForPenalty ''penalized''),
    \<lparr>StringArgs = [''penalty'', ''x'', ''m'', ''1,1'', ''2,1''],
     State = example_ledger (example_record\<lparr>Status := ''penalized''\<rparr>)\<rparr>) \<and>
   fst (Invoke test_crypto 0
     \<lparr>StringArgs = [''penalty'', ''x'', ''m'', ''5,5'', ''2,1''],
      State = example_ledger example_record\<rparr>) =
   Success (Text (''[+] Penalty applied'' @ [CHR 0x0A]))"
proof -
  have v: "verifySig test_crypto ''m'' [''EC1'', ''EC2''] [''1,1'', ''2,1'']"
    by (simp add: verifySig_two verify_step_test_EC1 verify_step_test_EC2)
  have v': "verifySig test_crypto ''m'' [''EC1'', ''EC2''] [''5,5'', ''2,1'']"
    by (simp add: verifySig_two verify_step_test_bad verify_step_test_EC2)
  from penalty_status_gate [of
      "\<lparr>StringArgs = [''penalty'', ''x'', ''m'', ''1,1'', ''2,1''],
        State = example_ledger (example_record\<lparr>Status := ''penalized''\<rparr>)\<rparr>"
      "''x''" "''m''" "''1,1''" "''2,1''" "example_record\<lparr>Status := ''penalized''\<rparr>"
      test_crypto 0]
  have 1: "Invoke test_crypto 0
     \<lparr>StringArgs = [''penalty'', ''x'', ''m'', ''1,1'', ''2,1''],
      State = example_ledger (example_record\<lparr>Status := ''penalized''\<rparr>)\<rparr> =
   (Error (InvalidStatusForPenalty ''penalized''),
    \<lparr>StringArgs = [''penalty'', ''x'', ''m'', ''1,1'', ''2,1''],
     State = example_ledger (example_record\<lparr>Status := ''penalized''\<rparr>)\<rparr>)"
    by (simp add: example_ledger_def ContractKey_def)
  from penalty_status_gate [of
      "\<lparr>StringArgs = [''penalty'', ''x'', ''m'', ''5,5'', ''2,1''],
        State = example_ledger example_record\<rparr>"
      "''x''" "''m''" "''5,5''" "''2,1''" example_record test_crypto 0] v'
  have 2: "fst (Invoke test_crypto 0
     \<lparr>StringArgs = [''penalty'', ''x'', ''m'', ''5,5'', ''2,1''],
      State = example_ledger example_record\<rparr>) =
   Success (Text (''[+] Penalty applied'' @ [CHR 0x0A]))"
    by (simp add: example_ledger_def ContractKey_def example_record_def)
  from v 1 2 show ?thesis by simp
qed

text \<open>
  C5, as the code has it. With a stored record whose status is neither \<open>init\<close> nor
  \<open>penalized\<close> and a pair of signatures that \<open>verifySig\<close> accepts, \<open>penalty\<close> succeeds,
  stores under the user's key the balance read there minus the deposit, and stores the
  record with the status \<open>penalized\<close>. The subtraction is Go's on 64 bits: nothing holds
  the result at zero, and it is the exact difference, negative or not, whenever that
  fits in 64 bits; below \<open>-2^63\<close> it wraps. The two hypotheses on the library say that
  neither the empty string nor the string \<open>contract\<close> decodes to a public key, as is so
  of Go's decoders, so the user's key of a verified pair is neither.
\<close>

theorem penalty_applied:
  assumes "StringArgs stub = [''penalty'', a0, message, hubSig, userSig]"
    and "State stub ContractKey = Some (Json apdl)"
    and "Status apdl \<noteq> ''init''" and "Status apdl \<noteq> ''penalized''"
    and "verifySig c message
           [PubKey (SoftwareOwner apdl), PubKey (SoftwareUser apdl)] [hubSig, userSig]"
    and "ParsePKIXPublicKey c (fst (DecodeString c [])) = None"
    and "ParsePKIXPublicKey c (fst (DecodeString c ContractKey)) = None"
  shows "\<exists>stub'. Invoke c now stub =
           (Success (Text (''[+] Penalty applied'' @ [CHR 0x0A])), stub') \<and>
     State stub' (PubKey (SoftwareUser apdl)) =
       Some (Decimal (balance_at (State stub) (PubKey (SoftwareUser apdl)) - DepositAmount apdl)) \<and>
     State stub' ContractKey = Some (Json (apdl\<lparr>Status := ''penalized''\<rparr>)) \<and>
     (- (2 ^ 63) \<le> sint (balance_at (State stub) (PubKey (SoftwareUser apdl))) -
                      sint (DepositAmount apdl) \<and>
      sint (balance_at (State stub) (PubKey (SoftwareUser apdl))) - sint (DepositAmount apdl)
        < 2 ^ 63 \<longrightarrow>
      sint (balance_at (State stub) (PubKey (SoftwareUser apdl)) - DepositAmount apdl) =
        sint (balance_at (State stub) (PubKey (SoftwareUser apdl))) - sint (DepositAmount apdl))"
proof -
  let ?u = "PubKey (SoftwareUser apdl)"
  from verifySig_two_parses(2) [OF assms(5)] assms(6,7)
  have u: "?u \<noteq> []" "?u \<noteq> ContractKey" by auto
  have "penalty c [a0, message, hubSig, userSig] stub =
      (Success (Text (''[+] Penalty applied'' @ [CHR 0x0A])),
       stub\<lparr>State := (State stub)(?u \<mapsto> Decimal (balance_at (State stub) ?u - DepositAmount apdl),
                ContractKey \<mapsto> Json (apdl\<lparr>Status := ''penalized''\<rparr>))\<rparr>)"
    using assms(2-5) u
    by (simp add: penalty_def GetState_def Unmarshal_def Let_def PutState_def balance_at_def
        ContractKey_def)
  then have "Invoke c now stub =
      (Success (Text (''[+] Penalty applied'' @ [CHR 0x0A])),
       stub\<lparr>State := (State stub)(?u \<mapsto> Decimal (balance_at (State stub) ?u - DepositAmount apdl),
                ContractKey \<mapsto> Json (apdl\<lparr>Status := ''penalized''\<rparr>))\<rparr>)"
    using assms(1) by (simp add: Invoke_penalty)
  moreover have "- (2 ^ 63) \<le> sint (balance_at (State stub) ?u) - sint (DepositAmount apdl) \<and>
      sint (balance_at (State stub) ?u) - sint (DepositAmount apdl) < 2 ^ 63 \<longrightarrow>
      sint (balance_at (State stub) ?u - DepositAmount apdl) =
        sint (balance_at (State stub) ?u) - sint (DepositAmount apdl)"
    by (simp add: sint_word_ariths signed_take_bit_int_eq_self)
  ultimately show ?thesis using u by simp
qed

text \<open>
  On the example ledger the user's balance of 100 becomes \<open>100 - 500\<close>, which is
  \<open>-400\<close>.
\<close>

theorem penalty_applied_witness:
  "fst (Invoke test_crypto 0
     \<lparr>StringArgs = [''penalty'', ''x'', ''m'', ''1,1'', ''2,1''],
      State = example_ledger example_record\<rparr>) =
     Success (Text (''[+] Penalty applied'' @ [CHR 0x0A])) \<and>
   State (snd (Invoke test_crypto 0
     \<lparr>StringArgs = [''penalty'', ''x'', ''m'', ''1,1'', ''2,1''],
      State = example_ledger example_record\<rparr>)) ''EC2'' = Some (Decimal (- 400)) \<and>
   sint (- 400 :: go_int) = - 400 \<and>
   State (snd (Invoke test_crypto 0
     \<lparr>StringArgs = [''penalty'', ''x'', ''m'', ''1,1'', ''2,1''],
      State = example_ledger example_record\<rparr>)) ''contract'' =
     Some (Json (example_record\<lparr>Status := ''penalized''\<rparr>))"
proof -
  let ?stub = "\<lparr>StringArgs = [''penalty'', ''x'', ''m'', ''1,1'', ''2,1''],
      State = example_ledger example_record\<rparr>"
  have v: "verifySig test_crypto ''m''
      [PubKey (SoftwareOwner example_record), PubKey (SoftwareUser example_record)]
      [''1,1'', ''2,1'']"
    by (simp add: example_record_def verifySig_two verify_step_test_EC1 verify_step_test_EC2)
  have r: "State ?stub ContractKey = Some (Json example_record)"
    by (simp add: example_ledger_def ContractKey_def)
  have s: "Status example_record \<noteq> ''init''" "Status example_record \<noteq> ''penalized''"
    by (simp_all add: example_record_def)
  have p: "ParsePKIXPublicKey test_crypto (fst (DecodeString test_crypto [])) = None"
    "ParsePKIXPublicKey test_crypto (fst (DecodeString test_crypto ContractKey)) = None"
    by (simp_all add: tc_simps ContractKey_def)
  from penalty_applied [of ?stub "''x''" "''m''" "''1,1''" "''2,1''" example_record
      test_crypto 0, OF _ r s v p]
  obtain stub' where
    "Invoke test_crypto 0 ?stub = (Success (Text (''[+] Penalty applied'' @ [CHR 0x0A])), stub')"
    "State stub' (PubKey (SoftwareUser example_record)) =
       Some (Decimal (balance_at (State ?stub) (PubKey (SoftwareUser example_record)) -
                      DepositAmount example_record))"
    "State stub' ContractKey = Some (Json (example_record\<lparr>Status := ''penalized''\<rparr>))"
    by auto
  then show ?thesis
    by (simp add: example_record_def example_ledger_def balance_at_def Atoi_bytes_def
        ContractKey_def)
qed

lemma Atoi_max: "Atoi ''9223372036854775807'' = Some 9223372036854775807"
  by (simp add: Atoi_def is_digit_def digit_val_def)

text \<open>
  The claim as it is stated fails where the subtraction wraps. A \<open>download_request\<close>
  with the largest deposit leaves both balances at 75000 - 9223372036854775807, which
  is -9223372036854700807; the exact difference of that and the deposit is below
  \<open>-2^63\<close>, and a \<open>penalty\<close> with signatures that verify stores 75002 for the user.
\<close>

theorem penalty_applied_counterexample:
  "fst (Invoke test_crypto 0
     \<lparr>StringArgs = [''download_request'', ''EC1'', ''EC2'', ''9223372036854775807'',
                    ''01/01/2999'', ''1.2.3.4'', ''9000''],
      State = Map.empty\<rparr>) = Success (Text ''download_request'') \<and>
   State (snd (Invoke test_crypto 0
     \<lparr>StringArgs = [''download_request'', ''EC1'', ''EC2'', ''9223372036854775807'',
                    ''01/01/2999'', ''1.2.3.4'', ''9000''],
      State = Map.empty\<rparr>)) ''EC2'' = Some (Decimal (- 9223372036854700807)) \<and>
   sint (- 9223372036854700807 :: go_int) - sint (9223372036854775807 :: go_int) =
     - 18446744073709476614 \<and>
   fst (Invoke test_crypto 0
     ((snd (Invoke test_crypto 0
        \<lparr>StringArgs = [''download_request'', ''EC1'', ''EC2'', ''9223372036854775807'',
                       ''01/01/2999'', ''1.2.3.4'', ''9000''],
         State = Map.empty\<rparr>))\<lparr>StringArgs := [''penalty'', ''x'', ''m'', ''1,1'', ''2,1'']\<rparr>)) =
     Success (Text (''[+] Penalty applied'' @ [CHR 0x0A])) \<and>
   State (snd (Invoke test_crypto 0
     ((snd (Invoke test_crypto 0
        \<lparr>StringArgs = [''download_request'', ''EC1'', ''EC2'', ''9223372036854775807'',
                       ''01/01/2999'', ''1.2.3.4'', ''9000''],
         State = Map.empty\<rparr>))\<lparr>StringArgs := [''penalty'', ''x'', ''m'', ''1,1'', ''2,1'']\<rparr>)))
     ''EC2'' = Some (Decimal 75002)"
proof -
  let ?stub = "\<lparr>StringArgs = [''download_request'', ''EC1'', ''EC2'', ''9223372036854775807'',
                    ''01/01/2999'', ''1.2.3.4'', ''9000''],
      State = Map.empty\<rparr>"
  let ?a = "\<lparr>Status = ''download_requested'',
            SoftwareOwner = \<lparr>PubKey = ''EC1'', IPAddress = ''0.0.0.0'', Port = ''0''\<rparr>,
            SoftwareUser = \<lparr>PubKey = ''EC2'', IPAddress = ''1.2.3.4'', Port = ''9000''\<rparr>,
            ContractExpiry = 32472144000000000000, DepositAmount = 9223372036854775807\<rparr>"
  have s: "sint (9223372036854775807 :: go_int) = 9223372036854775807"
    "sint (- 9223372036854700807 :: go_int) = - 9223372036854700807"
    by simp_all
  have 1: "Invoke test_crypto 0 ?stub =
      (Success (Text ''download_request''),
       ?stub\<lparr>State := [''EC1'' \<mapsto> Decimal (- 9223372036854700807),
                        ''EC2'' \<mapsto> Decimal (- 9223372036854700807),
                        ''contract'' \<mapsto> Json ?a]\<rparr>)"
    by (simp add: Invoke_download_request download_request_def GetStringArgs_def Atoi_max
        Parse_2999 After_def PutState_def ContractKey_def StartAmount_def SenderIP_def
        SenderPort_def Let_def s)
  have v: "verifySig test_crypto ''m'' [''EC1'', ''EC2''] [''1,1'', ''2,1'']"
    by (simp add: verifySig_two verify_step_test_EC1 verify_step_test_EC2)
  have 2: "Invoke test_crypto 0
      (\<lparr>StringArgs = [''penalty'', ''x'', ''m'', ''1,1'', ''2,1''],
        State = [''EC1'' \<mapsto> Decimal (- 9223372036854700807),
                 ''EC2'' \<mapsto> Decimal (- 9223372036854700807),
                 ''contract'' \<mapsto> Json ?a]\<rparr>) =
      (Success (Text (''[+] Penalty applied'' @ [CHR 0x0A])),
       \<lparr>StringArgs = [''penalty'', ''x'', ''m'', ''1,1'', ''2,1''],
        State = [''EC1'' \<mapsto> Decimal (- 9223372036854700807),
                 ''EC2'' \<mapsto> Decimal 75002,
                 ''contract'' \<mapsto> Json (?a\<lparr>Status := ''penalized''\<rparr>)]\<rparr>)"
    using v
    by (auto simp add: Invoke_penalty penalty_def GetState_def PutState_def Unmarshal_def
        Let_def Atoi_bytes_def ContractKey_def fun_upd_twist)
  from 1 2 s show ?thesis by simp
qed

lemma penalty_frame:
  assumes "penalty c args stub = (r, stub')"
  shows "StringArgs stub' = StringArgs stub \<and>
    (\<forall>k. k \<noteq> PubKey (SoftwareUser (Unmarshal (State stub ContractKey) zero_APDL)) \<and>
         k \<noteq> ContractKey \<longrightarrow> State stub' k = State stub k)"
  using assms
  by (auto simp add: penalty_def GetState_def PutState_def Let_def split: if_splits)

text \<open>
  C9, as the code has it. A successful \<open>penalty\<close> changes nothing but what is stored
  under the user's key of the stored record and under \<open>ContractKey\<close>: every other key,
  and so the owner's key when it is another key, keeps what it held.
\<close>

theorem penalty_writes_only:
  assumes "StringArgs stub = ''penalty'' # args"
    and "State stub ContractKey = Some (Json apdl)"
    and "Invoke c now stub = (Success p, stub')"
  shows "(\<forall>k. k \<noteq> PubKey (SoftwareUser apdl) \<and> k \<noteq> ContractKey \<longrightarrow>
            State stub' k = State stub k) \<and>
         (PubKey (SoftwareOwner apdl) \<noteq> PubKey (SoftwareUser apdl) \<and>
          PubKey (SoftwareOwner apdl) \<noteq> ContractKey \<longrightarrow>
            State stub' (PubKey (SoftwareOwner apdl)) = State stub (PubKey (SoftwareOwner apdl)))"
proof -
  from assms(1,3) have "penalty c args stub = (Success p, stub')"
    by (simp add: Invoke_penalty)
  from penalty_frame [OF this] assms(2) show ?thesis
    by (simp add: Unmarshal_def)
qed

theorem penalty_writes_only_witness:
  "fst (Invoke test_crypto 0
     \<lparr>StringArgs = [''penalty'', ''x'', ''m'', ''1,1'', ''2,1''],
      State = example_ledger example_record\<rparr>) =
     Success (Text (''[+] Penalty applied'' @ [CHR 0x0A])) \<and>
   State (snd (Invoke test_crypto 0
     \<lparr>StringArgs = [''penalty'', ''x'', ''m'', ''1,1'', ''2,1''],
      State = example_ledger example_record\<rparr>)) ''EC1'' = Some (Decimal 74500) \<and>
   State (snd (Invoke test_crypto 0
     \<lparr>StringArgs = [''penalty'', ''x'', ''m'', ''1,1'', ''2,1''],
      State = example_ledger example_record\<rparr>)) ''other'' = None"
proof -
  let ?stub = "\<lparr>StringArgs = [''penalty'', ''x'', ''m'', ''1,1'', ''2,1''],
      State = example_ledger example_record\<rparr>"
  let ?r = "Invoke test_crypto 0 ?stub"
  have v: "verifySig test_crypto ''m'' [''EC1'', ''EC2''] [''1,1'', ''2,1'']"
    by (simp add: verifySig_two verify_step_test_EC1 verify_step_test_EC2)
  have ok: "fst ?r = Success (Text (''[+] Penalty applied'' @ [CHR 0x0A]))"
    using v
    by (simp add: Invoke_penalty penalty_def GetState_def Unmarshal_def Let_def split_beta
        example_ledger_def example_record_def ContractKey_def)
  then have eq: "?r = (Success (Text (''[+] Penalty applied'' @ [CHR 0x0A])), snd ?r)"
    by (metis prod.collapse)
  have r: "State ?stub ContractKey = Some (Json example_record)"
    by (simp add: example_ledger_def ContractKey_def)
  from penalty_writes_only [of ?stub "[''x'', ''m'', ''1,1'', ''2,1'']" example_record
      test_crypto 0 _ "snd ?r", OF _ r eq]
  have "\<forall>k. k \<noteq> PubKey (SoftwareUser example_record) \<and> k \<noteq> ContractKey \<longrightarrow>
            State (snd ?r) k = State ?stub k"
    by simp
  then have "State (snd ?r) ''EC1'' = State ?stub ''EC1''"
    "State (snd ?r) ''other'' = State ?stub ''other''"
    by (simp_all add: example_record_def ContractKey_def)
  with ok show ?thesis by (simp add: example_ledger_def)
qed

text \<open>
  The claim as it is stated fails when the owner's key is the user's key: the record
  below names \<open>EC1\<close> as both, the call succeeds, and the owner's stored balance goes
  from 74500 to 74000.
\<close>

theorem penalty_writes_only_counterexample:
  "PubKey (SoftwareOwner (example_record\<lparr>SoftwareUser := SoftwareOwner example_record\<rparr>)) =
     ''EC1'' \<and>
   fst (Invoke test_crypto 0
     \<lparr>StringArgs = [''penalty'', ''x'', ''m'', ''1,1'', ''1,1''],
      State = example_ledger (example_record\<lparr>SoftwareUser := SoftwareOwner example_record\<rparr>)\<rparr>) =
     Success (Text (''[+] Penalty applied'' @ [CHR 0x0A])) \<and>
   example_ledger (example_record\<lparr>SoftwareUser := SoftwareOwner example_record\<rparr>) ''EC1'' =
     Some (Decimal 74500) \<and>
   State (snd (Invoke test_crypto 0
     \<lparr>StringArgs = [''penalty'', ''x'', ''m'', ''1,1'', ''1,1''],
      State = example_ledger (example_record\<lparr>SoftwareUser := SoftwareOwner example_record\<rparr>)\<rparr>))
     ''EC1'' = Some (Decimal 74000)"
proof -
  have v: "verifySig test_crypto ''m'' [''EC1'', ''EC1''] [''1,1'', ''1,1'']"
    by (simp add: verifySig_two verify_step_test_EC1)
  then show ?thesis
    by (simp add: Invoke_penalty penalty_def GetState_def PutState_def Unmarshal_def Let_def
        Atoi_bytes_def example_ledger_def example_record_def ContractKey_def)
qed

subsection \<open>\<open>refund\<close>\<close>

text \<open>
  C3, as the code has it. With a stored record of status \<open>download_request\<close>: when now
  is not after the expiry, \<open>refund\<close> returns the not-yet-expired error and the stub
  unchanged; when now is after the expiry and the user's key is neither empty nor
  \<open>ContractKey\<close>, it succeeds, and the ledger it leaves differs from the one it found in
  two places: the record, now of status \<open>expired\<close>, and the user's balance, now the
  balance read there plus the deposit (Go's addition, the exact sum whenever that fits
  in 64 bits).
\<close>

theorem refund_expiry:
  assumes "StringArgs stub = ''refund'' # ps"
    and "State stub ContractKey = Some (Json apdl)"
    and "Status apdl = ''download_request''"
  shows "(\<not> ContractExpiry apdl < now \<longrightarrow> Invoke c now stub = (Error NotYetExpired, stub)) \<and>
     (ContractExpiry apdl < now \<and> PubKey (SoftwareUser apdl) \<noteq> [] \<and>
      PubKey (SoftwareUser apdl) \<noteq> ContractKey \<longrightarrow>
        Invoke c now stub =
          (Success (Text ''[+] APDL contract expired.''),
           stub\<lparr>State := (State stub)
             (ContractKey \<mapsto> Json (apdl\<lparr>Status := ''expired''\<rparr>),
              PubKey (SoftwareUser apdl) \<mapsto>
                Decimal (balance_at (State stub) (PubKey (SoftwareUser apdl)) +
                         DepositAmount apdl))\<rparr>)) \<and>
     (- (2 ^ 63) \<le> sint (balance_at (State stub) (PubKey (SoftwareUser apdl))) +
                      sint (DepositAmount apdl) \<and>
      sint (balance_at (State stub) (PubKey (SoftwareUser apdl))) + sint (DepositAmount apdl)
        < 2 ^ 63 \<longrightarrow>
      sint (balance_at (State stub) (PubKey (SoftwareUser apdl)) + DepositAmount apdl) =
        sint (balance_at (State stub) (PubKey (SoftwareUser apdl))) + sint (DepositAmount apdl))"
proof -
  have "Invoke c now stub = refund now stub"
    using assms(1) by (rule Invoke_refund)
  moreover have "\<not> ContractExpiry apdl < now \<Longrightarrow> refund now stub = (Error NotYetExpired, stub)"
    using assms(2,3) by (simp add: refund_def GetState_def Unmarshal_def After_def)
  moreover have "ContractExpiry apdl < now \<Longrightarrow> PubKey (SoftwareUser apdl) \<noteq> [] \<Longrightarrow>
      PubKey (SoftwareUser apdl) \<noteq> ContractKey \<Longrightarrow>
      refund now stub =
          (Success (Text ''[+] APDL contract expired.''),
           stub\<lparr>State := (State stub)
             (ContractKey \<mapsto> Json (apdl\<lparr>Status := ''expired''\<rparr>),
              PubKey (SoftwareUser apdl) \<mapsto>
                Decimal (balance_at (State stub) (PubKey (SoftwareUser apdl)) +
                         DepositAmount apdl))\<rparr>)"
    using assms(2,3)
    by (simp add: refund_def GetState_def Unmarshal_def After_def PutState_def Let_def
        balance_at_def ContractKey_def)
  moreover have "- (2 ^ 63) \<le> sint (balance_at (State stub) (PubKey (SoftwareUser apdl))) +
                      sint (DepositAmount apdl) \<and>
      sint (balance_at (State stub) (PubKey (SoftwareUser apdl))) + sint (DepositAmount apdl)
        < 2 ^ 63 \<longrightarrow>
      sint (balance_at (State stub) (PubKey (SoftwareUser apdl)) + DepositAmount apdl) =
        sint (balance_at (State stub) (PubKey (SoftwareUser apdl))) + sint (DepositAmount apdl)"
    by (simp add: sint_word_ariths signed_take_bit_int_eq_self)
  ultimately show ?thesis by simp
qed

text \<open>
  Before the expiry (now is 0) the call fails and changes nothing; after it the user's
  balance of 100 becomes 600 and the record is stored with the status \<open>expired\<close>.
\<close>

theorem refund_expiry_witness:
  "Invoke test_crypto 0
     \<lparr>StringArgs = [''refund''],
      State = example_ledger (example_record\<lparr>Status := ''download_request''\<rparr>)\<rparr> =
     (Error NotYetExpired,
      \<lparr>StringArgs = [''refund''],
       State = example_ledger (example_record\<lparr>Status := ''download_request''\<rparr>)\<rparr>) \<and>
   Invoke test_crypto 1700000000000000000
     \<lparr>StringArgs = [''refund''],
      State = example_ledger (example_record\<lparr>Status := ''download_request''\<rparr>)\<rparr> =
     (Success (Text ''[+] APDL contract expired.''),
      \<lparr>StringArgs = [''refund''],
       State = [''EC1'' \<mapsto> Decimal 74500, ''EC2'' \<mapsto> Decimal 600,
                ''contract'' \<mapsto> Json (example_record\<lparr>Status := ''expired''\<rparr>)]\<rparr>)"
proof -
  let ?a = "example_record\<lparr>Status := ''download_request''\<rparr>"
  let ?stub = "\<lparr>StringArgs = [''refund''], State = example_ledger ?a\<rparr>"
  have r: "State ?stub ContractKey = Some (Json ?a)"
    by (simp add: example_ledger_def ContractKey_def)
  have s: "Status ?a = ''download_request''" by simp
  from refund_expiry [of ?stub "[]" ?a 0 test_crypto, OF _ r s]
  have 1: "Invoke test_crypto 0 ?stub = (Error NotYetExpired, ?stub)"
    by (simp add: example_record_def)
  from refund_expiry [of ?stub "[]" ?a 1700000000000000000 test_crypto, OF _ r s]
  have 2: "Invoke test_crypto 1700000000000000000 ?stub =
     (Success (Text ''[+] APDL contract expired.''),
      \<lparr>StringArgs = [''refund''],
       State = [''EC1'' \<mapsto> Decimal 74500, ''EC2'' \<mapsto> Decimal 600,
                ''contract'' \<mapsto> Json (example_record\<lparr>Status := ''expired''\<rparr>)]\<rparr>)"
    by (auto simp add: example_record_def example_ledger_def ContractKey_def balance_at_def
        Atoi_bytes_def fun_upd_twist)
  from 1 2 show ?thesis by simp
qed

text \<open>
  The claim as it is stated fails when the user's key is the contract key: the record
  is of the status the claim names and has expired, the call succeeds, and what is
  stored under \<open>contract\<close> afterwards is the balance 500, not the record with the
  status \<open>expired\<close>.
\<close>

theorem refund_expiry_counterexample:
  "Status (example_record\<lparr>Status := ''download_request'',
       SoftwareUser := \<lparr>PubKey = ''contract'', IPAddress = ''1.2.3.4'', Port = ''9000''\<rparr>\<rparr>) =
     ''download_request'' \<and>
   ContractExpiry (example_record\<lparr>Status := ''download_request'',
       SoftwareUser := \<lparr>PubKey = ''contract'', IPAddress = ''1.2.3.4'', Port = ''9000''\<rparr>\<rparr>)
     < 1700000000000000000 \<and>
   fst (Invoke test_crypto 1700000000000000000
     \<lparr>StringArgs = [''refund''],
      State = example_ledger (example_record\<lparr>Status := ''download_request'',
        SoftwareUser := \<lparr>PubKey = ''contract'', IPAddress = ''1.2.3.4'', Port = ''9000''\<rparr>\<rparr>)\<rparr>) =
     Success (Text ''[+] APDL contract expired.'') \<and>
   State (snd (Invoke test_crypto 1700000000000000000
     \<lparr>StringArgs = [''refund''],
      State = example_ledger (example_record\<lparr>Status := ''download_request'',
        SoftwareUser := \<lparr>PubKey = ''contract'', IPAddress = ''1.2.3.4'', Port = ''9000''\<rparr>\<rparr>)\<rparr>))
     ''contract'' = Some (Decimal 500)"
  by (simp add: Invoke_refund refund_def GetState_def PutState_def Unmarshal_def After_def
      Let_def Atoi_bytes_def example_ledger_def example_record_def ContractKey_def)

subsection \<open>What \<open>verifySig\<close> rejects\<close>

lemma verifySig_loop_None:
  "(k, sg) \<in> set ps \<Longrightarrow> verify_step c m k sg = None \<Longrightarrow> verifySig_loop c m ps v = False"
proof (induction ps arbitrary: v)
  case Nil
  then show ?case by simp
next
  case (Cons p ps)
  obtain k' sg' where p: "p = (k', sg')" by (cases p)
  show ?case
  proof (cases "verify_step c m k' sg'")
    case None
    then show ?thesis using p by simp
  next
    case (Some w)
    with Cons.prems p have "(k, sg) \<in> set ps" by auto
    with Cons.IH Cons.prems(2) Some p show ?thesis by simp
  qed
qed

text \<open>
  The part of C8 that holds: \<open>verifySig\<close> is false when the lists differ in length, and
  when at some position the bytes that the base64 decoding returned do not parse as a
  public key, or parse as a key that is no elliptic-curve key, or the signature has no
  comma.
\<close>

lemma verifySig_rejects:
  "length publicKeys \<noteq> length signatures \<Longrightarrow> \<not> verifySig c m publicKeys signatures"
  "length publicKeys = length signatures \<Longrightarrow> i < length publicKeys \<Longrightarrow>
     ParsePKIXPublicKey c (fst (DecodeString c (publicKeys ! i))) = None \<or>
     ParsePKIXPublicKey c (fst (DecodeString c (publicKeys ! i))) = Some other_PublicKey \<or>
     length (Split (signatures ! i)) < 2 \<Longrightarrow>
     \<not> verifySig c m publicKeys signatures"
proof -
  show "length publicKeys \<noteq> length signatures \<Longrightarrow> \<not> verifySig c m publicKeys signatures"
    by (simp add: verifySig_def)
next
  assume len: "length publicKeys = length signatures" and i: "i < length publicKeys"
    and bad: "ParsePKIXPublicKey c (fst (DecodeString c (publicKeys ! i))) = None \<or>
     ParsePKIXPublicKey c (fst (DecodeString c (publicKeys ! i))) = Some other_PublicKey \<or>
     length (Split (signatures ! i)) < 2"
  from bad have "verify_step c m (publicKeys ! i) (signatures ! i) = None"
    by (auto simp add: verify_step_def split_beta Let_def split: option.splits PublicKey.splits)
  moreover from len i have "(publicKeys ! i, signatures ! i) \<in> set (zip publicKeys signatures)"
    by (metis in_set_zip fst_conv snd_conv)
  ultimately have "verifySig_loop c m (zip publicKeys signatures) False = False"
    by (rule verifySig_loop_None [rotated])
  then show "\<not> verifySig c m publicKeys signatures"
    using len by (simp add: verifySig_def)
qed

text \<open>
  C8 fails on the code in one case. The error of the base64 decoding is never read:
  when the decoding reports an error and the bytes it returns with the error parse as
  an elliptic-curve key, \<open>verifySig\<close> goes on and returns what \<open>ecdsa.Verify\<close> says.
\<close>

theorem verifySig_base64_error_unread:
  assumes "DecodeString c key = (publicKeyBytes, True)"
    and "ParsePKIXPublicKey c publicKeyBytes = Some (ecdsa_PublicKey x y)"
    and "2 \<le> length (Split sg)"
  shows "verifySig c message [key] [sg] =
     Verify c (x, y) message (SetString c (Split sg ! 0)) (SetString c (Split sg ! 1))"
  using assms by (simp add: verifySig_def verify_step_def Let_def)

theorem verifySig_base64_error_unread_witness:
  "snd (DecodeString test_crypto ''EC1!'') \<and>
   verifySig test_crypto ''m'' [''EC1!''] [''1,1''] = True"
proof -
  have d: "DecodeString test_crypto ''EC1!'' = (''EC1'', True)"
    by (simp add: tc_simps)
  have p: "ParsePKIXPublicKey test_crypto ''EC1'' = Some (ecdsa_PublicKey 1 1)"
    by (simp add: tc_simps)
  have s: "2 \<le> length (Split ''1,1'')" by simp
  from verifySig_base64_error_unread [OF d p s, of "''m''"] d
  show ?thesis by (simp add: tc_simps is_digit_def digit_val_def)
qed

end
